theory Spec2Isabelle
  imports Complex_Main "HOL-Library.AList"
begin

section \<open>Language normalisation (app\_backend/models.py)\<close>

text \<open>
  Python strings are modelled as \<open>string\<close>. \<open>str.lower\<close> is modelled on the ASCII
  letters \<open>A\<close>..\<open>Z\<close>; every other character is left as it is. Python also lowers
  non-ASCII letters, but the only non-ASCII character whose lower case is a plain ASCII
  letter is the Kelvin sign (giving \<open>k\<close>), and no language name or alias contains a
  \<open>k\<close>, so a string with a non-ASCII character matches no key in either model.
\<close>

datatype error = KeyError | ValidationError

definition lower_char :: "char \<Rightarrow> char" where
  "lower_char c =
     (case map_of (zip ''ABCDEFGHIJKLMNOPQRSTUVWXYZ'' ''abcdefghijklmnopqrstuvwxyz'') c of
        None \<Rightarrow> c
      | Some l \<Rightarrow> l)"

definition lower :: "string \<Rightarrow> string" where
  "lower s = map lower_char s"

text \<open>\<open>Language = Literal["python", "javascript", "typescript", "sql", "java", "c", "cpp"]\<close>\<close>

definition Language :: "string list" where
  "Language = [''python'', ''javascript'', ''typescript'', ''sql'', ''java'', ''c'', ''cpp'']"

text \<open>A dict literal is an association list; \<open>k in d\<close> and \<open>d[k]\<close> look it up.\<close>

definition SUPPORTED_LANGUAGES :: "(string \<times> string) list" where
  "SUPPORTED_LANGUAGES =
     [(''python'', ''python''), (''javascript'', ''javascript''),
      (''typescript'', ''typescript''), (''sql'', ''sql''), (''java'', ''java''),
      (''c'', ''c''), (''cpp'', ''cpp'')]"

definition contains :: "('k \<times> 'v) list \<Rightarrow> 'k \<Rightarrow> bool" where
  "contains d k = (map_of d k \<noteq> None)"

definition subscript :: "('k \<times> 'v) list \<Rightarrow> 'k \<Rightarrow> error + 'v" where
  "subscript d k = (case map_of d k of None \<Rightarrow> Inl KeyError | Some v \<Rightarrow> Inr v)"

text \<open>The local dict \<open>mapping\<close> of \<open>normalize_language\<close>.\<close>

definition mapping :: "(string \<times> string) list" where
  "mapping = [(''c++'', ''cpp''), (''js'', ''javascript''), (''ts'', ''typescript'')]"

text \<open>
  \<open>normalize_language(lang: Optional[str])\<close>. \<open>not lang\<close> holds for \<open>None\<close> and for
  the empty string. Both subscripts can raise \<open>KeyError\<close> in Python, so the result is
  a sum.
\<close>

definition normalize_language :: "string option \<Rightarrow> error + string" where
  "normalize_language lang =
     (case lang of
        None \<Rightarrow> Inr ''python''
      | Some s \<Rightarrow>
          if s = [] then Inr ''python''
          else
            let lower = lower s in
            if contains SUPPORTED_LANGUAGES lower then subscript SUPPORTED_LANGUAGES lower
            else if contains mapping lower then
              (case subscript mapping lower of
                 Inl e \<Rightarrow> Inl e
               | Inr k \<Rightarrow> subscript SUPPORTED_LANGUAGES k)
            else Inr ''python'')"


section \<open>Objects and references\<close>

text \<open>
  \<open>RoomState\<close> is a mutable pydantic model and the store keeps such objects in a
  Python dict; both are reached through references and can be shared with callers.
  The heap therefore has two kinds of objects, each addressed by its position:
  \<open>RoomState\<close> objects and dicts from room id to a reference. A dict is an association
  list in insertion order; assigning to a key it has keeps the key's position, and a
  new key is put at the end, as in Python.

  The timestamps are Python floats read from \<open>time.time()\<close>. The code only stores and
  compares them, so they are modelled as \<open>real\<close>; the reading of the clock is an
  argument of every operation that takes one.
\<close>

type_synonym addr = nat

record RoomState =
  room_id :: string
  code :: string
  language :: string
  last_updated :: real

type_synonym dict = "(string \<times> addr) list"

record heap =
  objs :: "RoomState list"
  dicts :: "dict list"

definition new_obj :: "RoomState \<Rightarrow> heap \<Rightarrow> addr \<times> heap" where
  "new_obj r h = (length (objs h), h\<lparr>objs := objs h @ [r]\<rparr>)"

definition new_dict :: "dict \<Rightarrow> heap \<Rightarrow> addr \<times> heap" where
  "new_dict d h = (length (dicts h), h\<lparr>dicts := dicts h @ [d]\<rparr>)"

text \<open>Attribute assignment \<open>obj.attr = v\<close> on the object at \<open>a\<close>.\<close>

definition setattr :: "addr \<Rightarrow> (RoomState \<Rightarrow> RoomState) \<Rightarrow> heap \<Rightarrow> heap" where
  "setattr a f h = h\<lparr>objs := (objs h)[a := f (objs h ! a)]\<rparr>"

text \<open>\<open>d.get(k)\<close> and \<open>d[k] = a\<close> on the dict at \<open>d\<close>.\<close>

definition dict_get :: "addr \<Rightarrow> string \<Rightarrow> heap \<Rightarrow> addr option" where
  "dict_get d k h = map_of (dicts h ! d) k"

definition dict_setitem :: "addr \<Rightarrow> string \<Rightarrow> addr \<Rightarrow> heap \<Rightarrow> heap" where
  "dict_setitem d k a h = h\<lparr>dicts := (dicts h)[d := AList.update k a (dicts h ! d)]\<rparr>"

text \<open>
  The constructor \<open>RoomState(room_id=..., code=..., language=..., last_updated=...)\<close>.
  pydantic validates the fields when a model is constructed: \<open>language\<close> must be one of
  the literals of \<open>Language\<close>. Attribute assignment and \<open>model_copy\<close> do not validate.
\<close>

definition RoomState_init :: "string \<Rightarrow> string \<Rightarrow> string \<Rightarrow> real \<Rightarrow> error + RoomState" where
  "RoomState_init rid c l ts =
     (if l \<in> set Language
      then Inr \<lparr>room_id = rid, code = c, language = l, last_updated = ts\<rparr>
      else Inl ValidationError)"

definition model_copy :: "addr \<Rightarrow> heap \<Rightarrow> addr \<times> heap" where
  "model_copy a h = new_obj (objs h ! a) h"

text \<open>\<open>room.model_dump()\<close>: the field values of the object at the time of the call.\<close>

definition model_dump :: "addr \<Rightarrow> heap \<Rightarrow> RoomState" where
  "model_dump a h = objs h ! a"

section \<open>The rooms store (app\_backend/store.py)\<close>

text \<open>
  \<open>self._rooms\<close> is a reference to the store's dict. \<open>self._lock\<close> is not modelled:
  every operation is one atomic step on the heap.
\<close>

record RoomsStore =
  rooms :: addr

definition RoomsStore_init :: "heap \<Rightarrow> RoomsStore \<times> heap" where
  "RoomsStore_init h = (let (d, h1) = new_dict [] h in (\<lparr>rooms = d\<rparr>, h1))"

text \<open>
  \<open>uuid.uuid4().hex[:8]\<close>. The integer of the generated UUID is an argument; it is a
  128-bit value, written here as a natural number taken modulo \<open>2 ^ 128\<close>. \<open>hex\<close> is
  \<open>'%032x' % self.int\<close>: 32 lower-case hexadecimal digits, most significant first.
\<close>

definition hex_digit :: "nat \<Rightarrow> char" where
  "hex_digit n = ''0123456789abcdef'' ! (n mod 16)"

fun hex_pad :: "nat \<Rightarrow> nat \<Rightarrow> string" where
  "hex_pad 0 n = []"
| "hex_pad (Suc w) n = hex_pad w (n div 16) @ [hex_digit n]"

definition uuid_hex :: "nat \<Rightarrow> string" where
  "uuid_hex u = hex_pad 32 (u mod 2 ^ 128)"

definition generate_room_id :: "nat \<Rightarrow> string" where
  "generate_room_id u = take 8 (uuid_hex u)"

definition create_room ::
  "RoomsStore \<Rightarrow> nat \<Rightarrow> real \<Rightarrow> string \<Rightarrow> string option \<Rightarrow> heap \<Rightarrow> error + (addr \<times> heap)" where
  "create_room self uuid now code_arg language_arg h =
     (let rid = generate_room_id uuid in
      case normalize_language language_arg of
        Inl e \<Rightarrow> Inl e
      | Inr normalized_lang \<Rightarrow>
          let ts = now in
          (case RoomState_init rid code_arg normalized_lang ts of
             Inl e \<Rightarrow> Inl e
           | Inr r \<Rightarrow>
               let (room, h1) = new_obj r h
               in Inr (room, dict_setitem (rooms self) rid room h1)))"

definition get_room :: "RoomsStore \<Rightarrow> string \<Rightarrow> heap \<Rightarrow> addr option" where
  "get_room self rid h = dict_get (rooms self) rid h"

text \<open>
  Lines 63 to 70 of \<open>upsert_room\<close> and lines 83 to 90 of \<open>update_room\<close> are the same
  statements, modelled once: copy the existing object, assign the supplied fields to the
  copy, assign the clock reading, store the copy under the room id and return it.
\<close>

definition store_copy ::
  "RoomsStore \<Rightarrow> string \<Rightarrow> addr \<Rightarrow> string option \<Rightarrow> string option \<Rightarrow> real \<Rightarrow> heap
     \<Rightarrow> error + (addr \<times> heap)" where
  "store_copy self rid existing code_arg language_arg now h =
     (let (data, h1) = model_copy existing h;
          h2 = (case code_arg of
                  None \<Rightarrow> h1
                | Some c \<Rightarrow> setattr data (\<lambda>r. r\<lparr>code := c\<rparr>) h1)
      in case (case language_arg of
                 None \<Rightarrow> Inr h2
               | Some s \<Rightarrow>
                   (case normalize_language (Some s) of
                      Inl e \<Rightarrow> Inl e
                    | Inr l \<Rightarrow> Inr (setattr data (\<lambda>r. r\<lparr>language := l\<rparr>) h2))) of
           Inl e \<Rightarrow> Inl e
         | Inr h3 \<Rightarrow>
             let h4 = setattr data (\<lambda>r. r\<lparr>last_updated := now\<rparr>) h3
             in Inr (data, dict_setitem (rooms self) rid data h4))"

text \<open>\<open>code or ""\<close>: \<open>None\<close> and the empty string both give the empty string.\<close>

definition or_empty :: "string option \<Rightarrow> string" where
  "or_empty c = (case c of None \<Rightarrow> [] | Some s \<Rightarrow> if s = [] then [] else s)"

definition upsert_room ::
  "RoomsStore \<Rightarrow> string \<Rightarrow> string option \<Rightarrow> string option \<Rightarrow> real \<Rightarrow> heap
     \<Rightarrow> error + (addr \<times> heap)" where
  "upsert_room self rid code_arg language_arg now h =
     (case dict_get (rooms self) rid h of
        None \<Rightarrow>
          (case normalize_language language_arg of
             Inl e \<Rightarrow> Inl e
           | Inr l \<Rightarrow>
               (case RoomState_init rid (or_empty code_arg) l now of
                  Inl e \<Rightarrow> Inl e
                | Inr r \<Rightarrow>
                    let (existing, h1) = new_obj r h
                    in Inr (existing, dict_setitem (rooms self) rid existing h1)))
      | Some existing \<Rightarrow> store_copy self rid existing code_arg language_arg now h)"

definition update_room ::
  "RoomsStore \<Rightarrow> string \<Rightarrow> string option \<Rightarrow> string option \<Rightarrow> real \<Rightarrow> heap
     \<Rightarrow> error + (addr option \<times> heap)" where
  "update_room self rid code_arg language_arg now h =
     (case dict_get (rooms self) rid h of
        None \<Rightarrow> Inr (None, h)
      | Some existing \<Rightarrow>
          (case store_copy self rid existing code_arg language_arg now h of
             Inl e \<Rightarrow> Inl e
           | Inr (data, h1) \<Rightarrow> Inr (Some data, h1)))"


text \<open>
  One call of the store's public interface, with the values it reads from its
  environment (the UUID, the clock).
\<close>

datatype store_call =
    CreateRoom nat real string "string option"
  | UpsertRoom string "string option" "string option" real
  | UpdateRoom string "string option" "string option" real

fun call :: "RoomsStore \<Rightarrow> store_call \<Rightarrow> heap \<Rightarrow> error + (addr option \<times> heap)" where
  "call self (CreateRoom uuid now c l) h =
     (case create_room self uuid now c l h of
        Inl e \<Rightarrow> Inl e
      | Inr (a, h1) \<Rightarrow> Inr (Some a, h1))"
| "call self (UpsertRoom rid c l now) h =
     (case upsert_room self rid c l now h of
        Inl e \<Rightarrow> Inl e
      | Inr (a, h1) \<Rightarrow> Inr (Some a, h1))"
| "call self (UpdateRoom rid c l now) h = update_room self rid c l now h"

text \<open>The clock reading a call takes.\<close>

fun clock_of :: "store_call \<Rightarrow> real" where
  "clock_of (CreateRoom u now c l) = now"
| "clock_of (UpsertRoom rid c l now) = now"
| "clock_of (UpdateRoom rid c l now) = now"

subsection \<open>Observations and invariants\<close>

text \<open>The room a caller reads under an id: \<open>get_room\<close>, then the fields of the object.\<close>

definition room_at :: "RoomsStore \<Rightarrow> heap \<Rightarrow> string \<Rightarrow> RoomState option" where
  "room_at self h rid =
     (case get_room self rid h of
        None \<Rightarrow> None
      | Some a \<Rightarrow> Some (model_dump a h))"


text \<open>The store's dict exists and every reference in it is to an allocated object.\<close>

definition store_ok :: "RoomsStore \<Rightarrow> heap \<Rightarrow> bool" where
  "store_ok self h =
     (rooms self < length (dicts h) \<and>
      (\<forall>(k, a) \<in> set (dicts h ! rooms self). a < length (objs h)))"

text \<open>Every room is stored under its own \<open>room_id\<close>.\<close>

definition store_inv :: "RoomsStore \<Rightarrow> heap \<Rightarrow> bool" where
  "store_inv self h =
     (rooms self < length (dicts h) \<and>
      (\<forall>(k, a) \<in> set (dicts h ! rooms self).
         a < length (objs h) \<and> room_id (objs h ! a) = k))"


subsection \<open>What a caller can do with the result of \<open>list_rooms\<close>\<close>




section \<open>The room channel (app\_backend/main.py, \<open>room_websocket\<close>)\<close>

text \<open>
  A received JSON object is an association list from keys to strings, so
  \<open>data.get(k)\<close> is \<open>map_of data k\<close>; a key whose value is \<open>null\<close> is modelled as a
  missing key (both give \<open>None\<close>). Values that are not strings are outside the protocol
  and not modelled.

  What the server sends is either the dump of a room or the error payload; the payload
  is kept as the action that was not recognised, not as the formatted message.
\<close>

datatype ws_out = Snapshot RoomState | UnknownAction "string option"

text \<open>
  One turn of the \<open>while True\<close> loop after \<open>receive_json\<close>: the value passed to the
  single \<open>websocket.send_json\<close> of the branch taken, and the heap afterwards.
\<close>

definition room_websocket_turn ::
  "RoomsStore \<Rightarrow> string \<Rightarrow> (string \<times> string) list \<Rightarrow> real \<Rightarrow> heap \<Rightarrow> error + (ws_out \<times> heap)" where
  "room_websocket_turn store_arg rid data now h =
     (let action = map_of data ''action'' in
      if action = Some ''get'' then
        (case get_room store_arg rid h of
           None \<Rightarrow>
             (case upsert_room store_arg rid None None now h of
                Inl e \<Rightarrow> Inl e
              | Inr (room, h1) \<Rightarrow> Inr (Snapshot (model_dump room h1), h1))
         | Some room \<Rightarrow> Inr (Snapshot (model_dump room h), h))
      else if action = Some ''update'' then
        (let code_arg = map_of data ''code'';
             language_arg = map_of data ''language''
         in case upsert_room store_arg rid code_arg language_arg now h of
              Inl e \<Rightarrow> Inl e
            | Inr (room, h1) \<Rightarrow> Inr (Snapshot (model_dump room h1), h1))
      else Inr (UnknownAction action, h))"

text \<open>
  The server process: the heap, the single store instance \<open>_rooms_store\<close>, the open
  connections (each runs its own \<open>room_websocket\<close> with the \<open>room_id\<close> of its path), and
  what has been sent on each connection so far, oldest first. \<open>send_json\<close> in the
  handler of connection \<open>c\<close> writes to \<open>c\<close>. An exception that leaves the handler is the
  error of the step.
\<close>

record server =
  mem :: heap
  the_store :: RoomsStore
  conns :: "(nat \<times> string) list"
  sent :: "nat \<Rightarrow> ws_out list"

definition subscribed :: "server \<Rightarrow> nat \<Rightarrow> string \<Rightarrow> bool" where
  "subscribed srv c rid = (map_of (conns srv) c = Some rid)"

definition ws_receive :: "nat \<Rightarrow> (string \<times> string) list \<Rightarrow> real \<Rightarrow> server \<Rightarrow> error + server" where
  "ws_receive c data now srv =
     (case map_of (conns srv) c of
        None \<Rightarrow> Inr srv
      | Some rid \<Rightarrow>
          (case room_websocket_turn (the_store srv) rid data now (mem srv) of
             Inl e \<Rightarrow> Inl e
           | Inr (out, h1) \<Rightarrow>
               Inr (srv\<lparr>mem := h1, sent := (sent srv)(c := sent srv c @ [out])\<rparr>)))"

text \<open>
  The heap after a new object \<open>r\<close> has been allocated and stored in the store's dict
  under \<open>rid\<close>: the effect every successful mutation has.
\<close>

definition written :: "RoomsStore \<Rightarrow> string \<Rightarrow> RoomState \<Rightarrow> heap \<Rightarrow> heap" where
  "written self rid r h =
     h\<lparr>objs := objs h @ [r],
       dicts := (dicts h)[rooms self :=
          AList.update rid (length (objs h)) (dicts h ! rooms self)]\<rparr>"

text \<open>A sequence of calls, each on the heap the one before has left.\<close>

fun run :: "RoomsStore \<Rightarrow> store_call list \<Rightarrow> heap \<Rightarrow> error + heap" where
  "run self [] h = Inr h"
| "run self (op # ops) h =
     (case call self op h of
        Inl e \<Rightarrow> Inl e
      | Inr (res, h1) \<Rightarrow> run self ops h1)"

text \<open>
  The \<open>last_updated\<close> of room \<open>rid\<close> read after each call of a sequence, in order;
  \<open>None\<close> if a call fails or the room is not there after a call.
\<close>

fun timestamps :: "RoomsStore \<Rightarrow> string \<Rightarrow> store_call list \<Rightarrow> heap \<Rightarrow> real list option" where
  "timestamps self rid [] h = Some []"
| "timestamps self rid (op # ops) h =
     (case call self op h of
        Inl e \<Rightarrow> None
      | Inr (res, h1) \<Rightarrow>
          (case room_at self h1 rid of
             None \<Rightarrow> None
           | Some r \<Rightarrow>
               (case timestamps self rid ops h1 of
                  None \<Rightarrow> None
                | Some ts \<Rightarrow> Some (last_updated r # ts))))"

text \<open>
  The property of the timestamp as the specification words it, for one call \<open>op\<close> and
  the room \<open>rid\<close>: if the room is there before and the call returns a room, then
  \<open>last_updated\<close> has not decreased, and has increased if the code or the language is
  different.
\<close>

definition timestamp_advances :: "RoomsStore \<Rightarrow> string \<Rightarrow> store_call \<Rightarrow> heap \<Rightarrow> bool" where
  "timestamp_advances self rid op h =
     (case (room_at self h rid, call self op h) of
        (Some before, Inr (Some a, h1)) \<Rightarrow>
          (case room_at self h1 rid of
             None \<Rightarrow> False
           | Some after \<Rightarrow>
               last_updated before \<le> last_updated after \<and>
               ((code after \<noteq> code before \<or> language after \<noteq> language before)
                  \<longrightarrow> last_updated before < last_updated after))
      | _ \<Rightarrow> True)"



text \<open>
  The broadcast as the specification words it, for a message received on connection
  \<open>c\<close>: the turn succeeds and every connection subscribed to the sender's room has the
  room's snapshot appended to what it has been sent.
\<close>

definition update_is_broadcast ::
  "nat \<Rightarrow> (string \<times> string) list \<Rightarrow> real \<Rightarrow> server \<Rightarrow> bool" where
  "update_is_broadcast c data now srv =
     (case (map_of (conns srv) c, ws_receive c data now srv) of
        (Some rid, Inr srv1) \<Rightarrow>
          (case room_at (the_store srv1) (mem srv1) rid of
             None \<Rightarrow> False
           | Some r \<Rightarrow>
               (\<forall>(c1, rid1) \<in> set (conns srv).
                  rid1 = rid \<longrightarrow> sent srv1 c1 = sent srv c1 @ [Snapshot r]))
      | _ \<Rightarrow> False)"

text \<open>What has been sent on connection \<open>c\<close> after a step (nothing if the step failed).\<close>

definition sent_after :: "error + server \<Rightarrow> nat \<Rightarrow> ws_out list" where
  "sent_after res c = (case res of Inl e \<Rightarrow> [] | Inr srv1 \<Rightarrow> sent srv1 c)"

section \<open>Example states\<close>

text \<open>A store holding one room, \<open>r1\<close>, last updated at clock reading 10.\<close>

definition example_store :: RoomsStore where
  "example_store = \<lparr>rooms = 0\<rparr>"

definition example_heap :: heap where
  "example_heap =
     \<lparr>objs = [\<lparr>room_id = ''r1'', code = ''a'', language = ''python'', last_updated = 10\<rparr>],
      dicts = [[(''r1'', 0)]]\<rparr>"

text \<open>
  The store after one \<open>create_room\<close> on an empty store, with a UUID that starts with
  \<open>0000002a\<close>.
\<close>

definition created_heap :: heap where
  "created_heap =
     \<lparr>objs = [\<lparr>room_id = ''0000002a'', code = ''first'', language = ''python'',
               last_updated = 10\<rparr>],
      dicts = [[(''0000002a'', 0)]]\<rparr>"

text \<open>
  A server with the example store and three open connections: 1 and 2 on room \<open>r1\<close>,
  3 on room \<open>r2\<close>. Nothing has been sent yet.
\<close>

definition example_server :: server where
  "example_server =
     \<lparr>mem = example_heap, the_store = example_store,
      conns = [(1, ''r1''), (2, ''r1''), (3, ''r2'')],
      sent = (\<lambda>c. [])\<rparr>"

section \<open>Properties of the normaliser\<close>

lemma lower_Nil_iff: "lower s = [] \<longleftrightarrow> s = []"
  by (simp add: lower_def)

lemma normalize_language_None: "normalize_language None = Inr ''python''"
  by (simp add: normalize_language_def)

lemma normalize_language_Some:
  "normalize_language (Some s) =
     Inr (if lower s \<in> set Language then lower s
          else if lower s = ''c++'' then ''cpp''
          else if lower s = ''js'' then ''javascript''
          else if lower s = ''ts'' then ''typescript''
          else ''python'')"
  by (cases "s = []")
     (auto simp add: normalize_language_def lower_def contains_def subscript_def
        SUPPORTED_LANGUAGES_def mapping_def Language_def Let_def)

lemma normalize_language_total: "\<exists>l \<in> set Language. normalize_language x = Inr l"
proof (cases x)
  case None
  then show ?thesis by (simp add: normalize_language_None Language_def)
next
  case (Some s)
  show ?thesis unfolding Some normalize_language_Some
    by (auto simp add: Language_def)
qed

lemma lower_canonical: "l \<in> set Language \<Longrightarrow> lower l = l"
  by (auto simp add: Language_def lower_def lower_char_def)

lemma normalize_language_canonical:
  "l \<in> set Language \<Longrightarrow> normalize_language (Some l) = Inr l"
  by (simp add: normalize_language_Some lower_canonical)

text \<open>
  C5. \<open>normalize_language\<close> never raises and its result is one of the seven languages.
  It gives \<open>python\<close> for \<open>None\<close> and for the empty string. For any other string it
  compares the lower-cased input: a canonical identifier gives that identifier,
  \<open>c++\<close>, \<open>js\<close> and \<open>ts\<close> give \<open>cpp\<close>, \<open>javascript\<close> and \<open>typescript\<close>, and anything
  else gives \<open>python\<close>. Two inputs that differ only in case give the same result.
\<close>

theorem normalize_language_contract:
  "(\<exists>l \<in> set Language. normalize_language x = Inr l) \<and>
   normalize_language None = Inr ''python'' \<and>
   normalize_language (Some []) = Inr ''python'' \<and>
   (lower s \<in> set Language \<longrightarrow> normalize_language (Some s) = Inr (lower s)) \<and>
   (lower s = ''c++'' \<longrightarrow> normalize_language (Some s) = Inr ''cpp'') \<and>
   (lower s = ''js'' \<longrightarrow> normalize_language (Some s) = Inr ''javascript'') \<and>
   (lower s = ''ts'' \<longrightarrow> normalize_language (Some s) = Inr ''typescript'') \<and>
   (lower s \<notin> set Language \<and> lower s \<notin> {''c++'', ''js'', ''ts''}
      \<longrightarrow> normalize_language (Some s) = Inr ''python'') \<and>
   (lower s = lower t \<longrightarrow> normalize_language (Some s) = normalize_language (Some t))"
proof -
  have "normalize_language (Some []) = Inr ''python''"
    by (simp add: normalize_language_def)
  moreover have "lower s = ''c++'' \<longrightarrow> normalize_language (Some s) = Inr ''cpp''"
    by (simp add: normalize_language_Some Language_def)
  moreover have "lower s = ''js'' \<longrightarrow> normalize_language (Some s) = Inr ''javascript''"
    by (simp add: normalize_language_Some Language_def)
  moreover have "lower s = ''ts'' \<longrightarrow> normalize_language (Some s) = Inr ''typescript''"
    by (simp add: normalize_language_Some Language_def)
  moreover have "lower s \<notin> set Language \<and> lower s \<notin> {''c++'', ''js'', ''ts''}
      \<longrightarrow> normalize_language (Some s) = Inr ''python''"
    by (simp add: normalize_language_Some)
  moreover have "lower s = lower t \<longrightarrow> normalize_language (Some s) = normalize_language (Some t)"
    by (simp add: normalize_language_Some)
  ultimately show ?thesis
    using normalize_language_total [of x] normalize_language_None
    by (simp add: normalize_language_Some)
qed

theorem normalize_language_contract_witness:
  "normalize_language (Some ''PyThOn'') = Inr ''python'' \<and>
   normalize_language (Some ''SQL'') = Inr ''sql'' \<and>
   normalize_language (Some ''C++'') = Inr ''cpp'' \<and>
   normalize_language (Some ''js'') = Inr ''javascript'' \<and>
   normalize_language (Some ''TS'') = Inr ''typescript'' \<and>
   normalize_language (Some ''klingon'') = Inr ''python'' \<and>
   normalize_language (Some ''JAVA'') = normalize_language (Some ''java'')"
proof -
  have "normalize_language (Some ''JAVA'') = normalize_language (Some ''java'')"
    using normalize_language_contract [of None "''JAVA''" "''java''"]
    by (simp add: lower_def lower_char_def)
  then show ?thesis
    using normalize_language_contract [of None "''PyThOn''" "''python''"]
      normalize_language_contract [of None "''SQL''" "''sql''"]
      normalize_language_contract [of None "''C++''" "''c++''"]
      normalize_language_contract [of None "''js''" "''JS''"]
      normalize_language_contract [of None "''TS''" "''ts''"]
      normalize_language_contract [of None "''klingon''" "''Klingon''"]
    by (simp add: lower_def lower_char_def Language_def)
qed

text \<open>
  C6. Normalisation is idempotent: \<open>normalize_language\<close> returns a language for every
  input, and normalising that language again returns it unchanged.
\<close>

theorem normalize_language_idempotent:
  "\<exists>l. normalize_language x = Inr l \<and> normalize_language (Some l) = Inr l"
  using normalize_language_total [of x] normalize_language_canonical by blast

section \<open>Properties of the store\<close>

subsection \<open>What each operation returns\<close>

lemma set_update_cases:
  "(k', a') \<in> set (AList.update k a al) \<Longrightarrow> (k', a') = (k, a) \<or> (k', a') \<in> set al"
  by (induction al) (auto split: if_splits)

lemma or_empty_eq: "or_empty c = (case c of None \<Rightarrow> [] | Some s \<Rightarrow> s)"
  by (simp add: or_empty_def split: option.splits)

lemma store_copy_result:
  "\<exists>l'. (case l of None \<Rightarrow> l' = language (objs h ! existing)
                | Some s \<Rightarrow> normalize_language (Some s) = Inr l') \<and>
     store_copy self rid existing c l now h =
       Inr (length (objs h),
            written self rid
              ((objs h ! existing)
                 \<lparr>code := (case c of None \<Rightarrow> code (objs h ! existing) | Some x \<Rightarrow> x),
                  language := l', last_updated := now\<rparr>) h)"
proof (cases l)
  case None
  then show ?thesis
    by (cases c)
       (simp_all add: store_copy_def model_copy_def new_obj_def setattr_def dict_setitem_def
          written_def)
next
  case (Some s)
  obtain l' where l': "normalize_language (Some s) = Inr l'"
    using normalize_language_total [of "Some s"] by blast
  show ?thesis
    using Some l'
    by (cases c)
       (simp_all add: store_copy_def model_copy_def new_obj_def setattr_def dict_setitem_def
          written_def)
qed

lemma existing_room_result:
  assumes "get_room self rid h = Some a0"
  shows "\<exists>l'. (case l of None \<Rightarrow> l' = language (objs h ! a0)
                | Some s \<Rightarrow> normalize_language (Some s) = Inr l') \<and>
     upsert_room self rid c l now h =
       Inr (length (objs h),
            written self rid
              ((objs h ! a0)
                 \<lparr>code := (case c of None \<Rightarrow> code (objs h ! a0) | Some x \<Rightarrow> x),
                  language := l', last_updated := now\<rparr>) h) \<and>
     update_room self rid c l now h =
       Inr (Some (length (objs h)),
            written self rid
              ((objs h ! a0)
                 \<lparr>code := (case c of None \<Rightarrow> code (objs h ! a0) | Some x \<Rightarrow> x),
                  language := l', last_updated := now\<rparr>) h)"
proof -
  from assms have g: "dict_get (rooms self) rid h = Some a0"
    by (simp add: get_room_def)
  from store_copy_result [where l = l and h = h and existing = a0 and self = self
      and rid = rid and c = c and now = now] g
  show ?thesis
    by (auto simp add: upsert_room_def update_room_def)
qed

lemma upsert_room_new:
  assumes "dict_get (rooms self) rid h = None"
  shows "\<exists>l' \<in> set Language. normalize_language l = Inr l' \<and>
     upsert_room self rid c l now h =
       Inr (length (objs h),
            written self rid
              \<lparr>room_id = rid, code = or_empty c, language = l', last_updated = now\<rparr> h)"
proof -
  obtain l' where l': "l' \<in> set Language" "normalize_language l = Inr l'"
    using normalize_language_total [of l] by blast
  then show ?thesis using assms
    by (simp add: upsert_room_def RoomState_init_def new_obj_def dict_setitem_def written_def)
qed

lemma create_room_result:
  "\<exists>l' \<in> set Language. normalize_language l = Inr l' \<and>
     create_room self u now c l h =
       Inr (length (objs h),
            written self (generate_room_id u)
              \<lparr>room_id = generate_room_id u, code = c, language = l',
                last_updated = now\<rparr> h)"
proof -
  obtain l' where l': "l' \<in> set Language" "normalize_language l = Inr l'"
    using normalize_language_total [of l] by blast
  then show ?thesis
    by (simp add: create_room_def RoomState_init_def new_obj_def dict_setitem_def Let_def
          written_def)
qed

subsection \<open>Reading the heap after a write\<close>

lemma get_room_written_same:
  "rooms self < length (dicts h) \<Longrightarrow>
   get_room self rid (written self rid r h) = Some (length (objs h))"
  by (simp add: get_room_def dict_get_def update_conv' written_def)

lemma get_room_written_other:
  "k \<noteq> rid \<Longrightarrow> get_room self k (written self rid r h) = get_room self k h"
  by (cases "rooms self < length (dicts h)")
     (simp_all add: get_room_def dict_get_def update_conv' written_def list_update_beyond)

lemma model_dump_written_new: "model_dump (length (objs h)) (written self rid r h) = r"
  by (simp add: model_dump_def written_def)

lemma model_dump_written_old:
  "a < length (objs h) \<Longrightarrow> model_dump a (written self rid r h) = model_dump a h"
  by (simp add: model_dump_def written_def nth_append)


lemma length_written:
  "length (objs (written self rid r h)) = Suc (length (objs h))"
  "length (dicts (written self rid r h)) = length (dicts h)"
  by (simp_all add: written_def)

subsection \<open>Generated identifiers\<close>

lemma length_hex_pad: "length (hex_pad w n) = w"
  by (induction w arbitrary: n) simp_all

lemma hex_digit_in: "hex_digit n \<in> set ''0123456789abcdef''"
proof -
  have "n mod 16 < length ''0123456789abcdef''" by simp
  then show ?thesis unfolding hex_digit_def by (rule nth_mem)
qed

lemma set_hex_pad: "set (hex_pad w n) \<subseteq> set ''0123456789abcdef''"
  using hex_digit_in by (induction w arbitrary: n) auto

subsection \<open>Unknown identifiers\<close>

text \<open>
  C3. For an id the store does not have, \<open>update_room\<close> returns \<open>None\<close> and leaves
  the heap as it was, while \<open>upsert_room\<close> stores and returns a new room under that id
  with the supplied code (the empty string when none is supplied), the normalised
  language (\<open>python\<close> when none is supplied, the supplied one when it is a canonical
  identifier) and the clock reading.
\<close>

theorem unknown_id_update_vs_upsert:
  assumes "rooms self < length (dicts h)" and "get_room self rid h = None"
  shows "update_room self rid c l now h = Inr (None, h) \<and>
    (\<exists>a h' l'. upsert_room self rid c l now h = Inr (a, h') \<and>
       get_room self rid h' = Some a \<and>
       normalize_language l = Inr l' \<and>
       model_dump a h' =
         \<lparr>room_id = rid, code = (case c of None \<Rightarrow> [] | Some x \<Rightarrow> x),
          language = l', last_updated = now\<rparr> \<and>
       room_at self h' rid = Some (model_dump a h') \<and>
       (l = None \<longrightarrow> l' = ''python'') \<and>
       (\<forall>s \<in> set Language. l = Some s \<longrightarrow> l' = s))"
proof -
  from assms(2) have none: "dict_get (rooms self) rid h = None"
    by (simp add: get_room_def)
  then have upd: "update_room self rid c l now h = Inr (None, h)"
    by (simp add: update_room_def)
  define r where "r l' = \<lparr>room_id = rid, code = or_empty c, language = l', last_updated = now\<rparr>"
    for l'
  from upsert_room_new [OF none, of l c now]
  obtain l' where l': "normalize_language l = Inr l'"
    and ups: "upsert_room self rid c l now h = Inr (length (objs h), written self rid (r l') h)"
    unfolding r_def by blast
  have g: "get_room self rid (written self rid (r l') h) = Some (length (objs h))"
    using assms(1) by (rule get_room_written_same)
  have d: "model_dump (length (objs h)) (written self rid (r l') h) =
         \<lparr>room_id = rid, code = (case c of None \<Rightarrow> [] | Some x \<Rightarrow> x),
          language = l', last_updated = now\<rparr>"
    by (simp add: model_dump_written_new r_def or_empty_eq)
  have ra: "room_at self (written self rid (r l') h) rid =
      Some (model_dump (length (objs h)) (written self rid (r l') h))"
    using g by (simp add: room_at_def)
  have n: "l = None \<longrightarrow> l' = ''python''"
    using l' by (auto simp add: normalize_language_None)
  have s: "\<forall>s \<in> set Language. l = Some s \<longrightarrow> l' = s"
    using l' by (auto simp add: normalize_language_canonical)
  from upd ups g l' d ra n s show ?thesis by blast
qed

theorem unknown_id_update_vs_upsert_witness:
  "update_room example_store ''zz'' (Some ''b'') (Some ''java'') 11 example_heap
     = Inr (None, example_heap) \<and>
   (\<exists>a h'. upsert_room example_store ''zz'' (Some ''b'') (Some ''java'') 11 example_heap
        = Inr (a, h') \<and>
      room_at example_store h' ''zz'' =
        Some \<lparr>room_id = ''zz'', code = ''b'', language = ''java'', last_updated = 11\<rparr>)"
proof -
  have 1: "rooms example_store < length (dicts example_heap)"
    by (simp add: example_store_def example_heap_def)
  have 2: "get_room example_store ''zz'' example_heap = None"
    by (simp add: get_room_def dict_get_def example_store_def example_heap_def)
  have 3: "''java'' \<in> set Language" by (simp add: Language_def)
  from unknown_id_update_vs_upsert [OF 1 2, of "Some ''b''" "Some ''java''" 11] 3
  show ?thesis by auto
qed

subsection \<open>Updating a room the store has\<close>

lemma example_store_ok: "store_ok example_store example_heap"
  by (simp add: store_ok_def example_store_def example_heap_def)

lemma example_get_r1: "get_room example_store ''r1'' example_heap = Some 0"
  by (simp add: get_room_def dict_get_def example_store_def example_heap_def)

lemma example_dump_r1:
  "model_dump 0 example_heap =
     \<lparr>room_id = ''r1'', code = ''a'', language = ''python'', last_updated = 10\<rparr>"
  by (simp add: model_dump_def example_heap_def)

text \<open>
  C4. On a room the store has, \<open>update_room\<close> and \<open>upsert_room\<close> (which then do the
  same) change only the fields supplied: without a code the code stays, without a
  language the language stays, a supplied code is stored as it is and a supplied language
  is stored normalised. The room keeps its \<open>room_id\<close>.
\<close>

theorem partial_update_frame:
  assumes "store_ok self h" and "get_room self rid h = Some a0"
  shows "\<exists>a h'. update_room self rid c l now h = Inr (Some a, h') \<and>
       upsert_room self rid c l now h = Inr (a, h') \<and>
       get_room self rid h' = Some a \<and>
       room_id (model_dump a h') = room_id (model_dump a0 h) \<and>
       (c = None \<longrightarrow> code (model_dump a h') = code (model_dump a0 h)) \<and>
       (\<forall>x. c = Some x \<longrightarrow> code (model_dump a h') = x) \<and>
       (l = None \<longrightarrow> language (model_dump a h') = language (model_dump a0 h)) \<and>
       (\<forall>s. l = Some s \<longrightarrow> normalize_language (Some s) = Inr (language (model_dump a h')))"
proof -
  from assms(1) have dl: "rooms self < length (dicts h)"
    by (simp add: store_ok_def)
  from existing_room_result [OF assms(2), of l c now]
  obtain l' where l': "case l of None \<Rightarrow> l' = language (objs h ! a0)
                | Some s \<Rightarrow> normalize_language (Some s) = Inr l'"
    and ups: "upsert_room self rid c l now h =
       Inr (length (objs h),
            written self rid
              ((objs h ! a0)
                 \<lparr>code := (case c of None \<Rightarrow> code (objs h ! a0) | Some x \<Rightarrow> x),
                  language := l', last_updated := now\<rparr>) h)"
    and upd: "update_room self rid c l now h =
       Inr (Some (length (objs h)),
            written self rid
              ((objs h ! a0)
                 \<lparr>code := (case c of None \<Rightarrow> code (objs h ! a0) | Some x \<Rightarrow> x),
                  language := l', last_updated := now\<rparr>) h)"
    by blast
  let ?r = "(objs h ! a0)
                 \<lparr>code := (case c of None \<Rightarrow> code (objs h ! a0) | Some x \<Rightarrow> x),
                  language := l', last_updated := now\<rparr>"
  have g: "get_room self rid (written self rid ?r h) = Some (length (objs h))"
    using dl by (rule get_room_written_same)
  have d: "model_dump (length (objs h)) (written self rid ?r h) = ?r"
    by (rule model_dump_written_new)
  let ?a = "length (objs h)" and ?h' = "written self rid ?r h"
  have f: "room_id (model_dump ?a ?h') = room_id (model_dump a0 h) \<and>
       (c = None \<longrightarrow> code (model_dump ?a ?h') = code (model_dump a0 h)) \<and>
       (\<forall>x. c = Some x \<longrightarrow> code (model_dump ?a ?h') = x) \<and>
       (l = None \<longrightarrow> language (model_dump ?a ?h') = language (model_dump a0 h)) \<and>
       (\<forall>s. l = Some s \<longrightarrow>
          normalize_language (Some s) = Inr (language (model_dump ?a ?h')))"
    unfolding d using l' by (auto simp add: model_dump_def)
  from upd ups g f show ?thesis by blast
qed

theorem partial_update_frame_witness:
  "(\<exists>a h'. update_room example_store ''r1'' (Some ''b'') None 11 example_heap = Inr (Some a, h') \<and>
      code (model_dump a h') = ''b'' \<and> language (model_dump a h') = ''python'') \<and>
   (\<exists>a h'. upsert_room example_store ''r1'' None (Some ''JS'') 11 example_heap = Inr (a, h') \<and>
      code (model_dump a h') = ''a'' \<and> language (model_dump a h') = ''javascript'')"
proof -
  have n: "normalize_language (Some ''JS'') = Inr ''javascript''"
    by (simp add: normalize_language_Some lower_def lower_char_def Language_def)
  from partial_update_frame [OF example_store_ok example_get_r1, of "Some ''b''" None 11]
  have 1: "\<exists>a h'. update_room example_store ''r1'' (Some ''b'') None 11 example_heap = Inr (Some a, h') \<and>
      code (model_dump a h') = ''b'' \<and> language (model_dump a h') = ''python''"
    by (auto simp add: example_dump_r1)
  from partial_update_frame [OF example_store_ok example_get_r1, of None "Some ''JS''" 11] n
  have 2: "\<exists>a h'. upsert_room example_store ''r1'' None (Some ''JS'') 11 example_heap = Inr (a, h') \<and>
      code (model_dump a h') = ''a'' \<and> language (model_dump a h') = ''javascript''"
    by (auto simp add: example_dump_r1)
  from 1 2 show ?thesis by blast
qed

text \<open>
  C10. On a room the store has, \<open>update_room\<close> and \<open>upsert_room\<close> with neither code nor
  language are not a no-op: the heap changes, a new object is stored under the id and
  returned, equal to the old room except that \<open>last_updated\<close> is the clock reading; the
  old object is left as it was.
\<close>

theorem empty_update_refreshes:
  assumes "store_ok self h" and "get_room self rid h = Some a0"
  shows "\<exists>a h'. update_room self rid None None now h = Inr (Some a, h') \<and>
       upsert_room self rid None None now h = Inr (a, h') \<and>
       h' \<noteq> h \<and> a \<noteq> a0 \<and>
       get_room self rid h' = Some a \<and>
       model_dump a h' = (model_dump a0 h)\<lparr>last_updated := now\<rparr> \<and>
       model_dump a0 h' = model_dump a0 h"
proof -
  from assms(1) have dl: "rooms self < length (dicts h)"
    by (simp add: store_ok_def)
  from assms(2) have "(rid, a0) \<in> set (dicts h ! rooms self)"
    by (simp add: get_room_def dict_get_def map_of_SomeD)
  with assms(1) have a0: "a0 < length (objs h)"
    by (auto simp add: store_ok_def)
  let ?r = "(model_dump a0 h)\<lparr>last_updated := now\<rparr>"
  from existing_room_result [OF assms(2), of None None now]
  have ups: "upsert_room self rid None None now h = Inr (length (objs h), written self rid ?r h)"
    and upd: "update_room self rid None None now h =
       Inr (Some (length (objs h)), written self rid ?r h)"
    by (simp_all add: model_dump_def)
  have g: "get_room self rid (written self rid ?r h) = Some (length (objs h))"
    using dl by (rule get_room_written_same)
  have d: "model_dump (length (objs h)) (written self rid ?r h) = ?r"
    by (rule model_dump_written_new)
  have old: "model_dump a0 (written self rid ?r h) = model_dump a0 h"
    using a0 by (rule model_dump_written_old)
  have ne: "written self rid ?r h \<noteq> h"
  proof
    assume "written self rid ?r h = h"
    then have "length (objs (written self rid ?r h)) = length (objs h)" by simp
    then show False by (simp add: length_written)
  qed
  from a0 have "length (objs h) \<noteq> a0" by simp
  with upd ups g d old ne show ?thesis by blast
qed

theorem empty_update_refreshes_witness:
  "\<exists>a h'. update_room example_store ''r1'' None None 12 example_heap = Inr (Some a, h') \<and>
       upsert_room example_store ''r1'' None None 12 example_heap = Inr (a, h') \<and>
       h' \<noteq> example_heap \<and> a \<noteq> 0 \<and>
       get_room example_store ''r1'' h' = Some a \<and>
       model_dump a h' =
         \<lparr>room_id = ''r1'', code = ''a'', language = ''python'', last_updated = 12\<rparr>"
  using empty_update_refreshes [OF example_store_ok example_get_r1, of 12]
  by (auto simp add: example_dump_r1)

subsection \<open>The shape of every call\<close>

lemma existing_room_short:
  assumes "get_room self rid h = Some a0"
  shows "\<exists>r. room_id r = room_id (objs h ! a0) \<and> last_updated r = now \<and>
     upsert_room self rid c l now h = Inr (length (objs h), written self rid r h) \<and>
     update_room self rid c l now h = Inr (Some (length (objs h)), written self rid r h)"
proof -
  from existing_room_result [OF assms, of l c now]
  obtain l' where
    "upsert_room self rid c l now h =
       Inr (length (objs h),
            written self rid
              ((objs h ! a0)
                 \<lparr>code := (case c of None \<Rightarrow> code (objs h ! a0) | Some x \<Rightarrow> x),
                  language := l', last_updated := now\<rparr>) h)"
    "update_room self rid c l now h =
       Inr (Some (length (objs h)),
            written self rid
              ((objs h ! a0)
                 \<lparr>code := (case c of None \<Rightarrow> code (objs h ! a0) | Some x \<Rightarrow> x),
                  language := l', last_updated := now\<rparr>) h)"
    by blast
  then show ?thesis
    by (intro exI [of _ "(objs h ! a0)
                 \<lparr>code := (case c of None \<Rightarrow> code (objs h ! a0) | Some x \<Rightarrow> x),
                  language := l', last_updated := now\<rparr>"]) simp
qed

lemma new_room_short:
  assumes "get_room self rid h = None"
  shows "\<exists>r. room_id r = rid \<and> last_updated r = now \<and>
     upsert_room self rid c l now h = Inr (length (objs h), written self rid r h)"
proof -
  from assms have "dict_get (rooms self) rid h = None" by (simp add: get_room_def)
  from upsert_room_new [OF this, of l c now]
  obtain l' where "upsert_room self rid c l now h =
       Inr (length (objs h),
            written self rid
              \<lparr>room_id = rid, code = or_empty c, language = l', last_updated = now\<rparr> h)"
    by blast
  then show ?thesis
    by (intro exI [of _ "\<lparr>room_id = rid, code = or_empty c, language = l',
          last_updated = now\<rparr>"]) simp
qed

lemma create_room_short:
  "\<exists>r. room_id r = generate_room_id u \<and> last_updated r = now \<and> code r = c \<and>
     normalize_language l = Inr (language r) \<and>
     create_room self u now c l h =
       Inr (length (objs h), written self (generate_room_id u) r h)"
proof -
  from create_room_result [of l self u now c h]
  obtain l' where "normalize_language l = Inr l'" "create_room self u now c l h =
       Inr (length (objs h),
            written self (generate_room_id u)
              \<lparr>room_id = generate_room_id u, code = c, language = l',
                last_updated = now\<rparr> h)"
    by blast
  then show ?thesis
    by (intro exI [of _ "\<lparr>room_id = generate_room_id u, code = c, language = l',
                last_updated = now\<rparr>"]) simp
qed

lemma call_shape:
  "call self op h = Inr (None, h) \<or>
   (\<exists>k r. call self op h = Inr (Some (length (objs h)), written self k r h) \<and>
      last_updated r = clock_of op \<and>
      (room_id r = k \<or> (\<exists>a0. get_room self k h = Some a0 \<and> room_id r = room_id (objs h ! a0))))"
proof (cases op)
  case (CreateRoom u now c l)
  from create_room_short [of u now c l self h]
  obtain r where "room_id r = generate_room_id u" "last_updated r = now"
    "create_room self u now c l h = Inr (length (objs h), written self (generate_room_id u) r h)"
    by blast
  with CreateRoom have "call self op h = Inr (Some (length (objs h)), written self (generate_room_id u) r h) \<and>
      last_updated r = clock_of op \<and> room_id r = generate_room_id u"
    by simp
  then show ?thesis by blast
next
  case (UpsertRoom rid c l now)
  show ?thesis
  proof (cases "get_room self rid h")
    case None
    from new_room_short [OF this, of now c l]
    obtain r where "room_id r = rid" "last_updated r = now"
      "upsert_room self rid c l now h = Inr (length (objs h), written self rid r h)"
      by blast
    with UpsertRoom have "call self op h = Inr (Some (length (objs h)), written self rid r h) \<and>
      last_updated r = clock_of op \<and> room_id r = rid"
      by simp
    then show ?thesis by blast
  next
    case (Some a0)
    from existing_room_short [OF this, of now c l]
    obtain r where "room_id r = room_id (objs h ! a0)" "last_updated r = now"
      "upsert_room self rid c l now h = Inr (length (objs h), written self rid r h)"
      by blast
    with UpsertRoom Some
    have "call self op h = Inr (Some (length (objs h)), written self rid r h) \<and>
      last_updated r = clock_of op \<and> get_room self rid h = Some a0 \<and>
      room_id r = room_id (objs h ! a0)"
      by simp
    then show ?thesis by blast
  qed
next
  case (UpdateRoom rid c l now)
  show ?thesis
  proof (cases "get_room self rid h")
    case None
    then show ?thesis using UpdateRoom by (simp add: update_room_def get_room_def)
  next
    case (Some a0)
    from existing_room_short [OF this, of now c l]
    obtain r where "room_id r = room_id (objs h ! a0)" "last_updated r = now"
      "update_room self rid c l now h = Inr (Some (length (objs h)), written self rid r h)"
      by blast
    with UpdateRoom Some
    have "call self op h = Inr (Some (length (objs h)), written self rid r h) \<and>
      last_updated r = clock_of op \<and> get_room self rid h = Some a0 \<and>
      room_id r = room_id (objs h ! a0)"
      by simp
    then show ?thesis by blast
  qed
qed

subsection \<open>Rooms are stored under their own id\<close>

lemma store_inv_written:
  assumes "store_inv self h" and "room_id r = k"
  shows "store_inv self (written self k r h)"
proof -
  from assms(1) have dl: "rooms self < length (dicts h)"
    and ent: "\<And>k' a'. (k', a') \<in> set (dicts h ! rooms self) \<Longrightarrow>
        a' < length (objs h) \<and> room_id (objs h ! a') = k'"
    by (auto simp add: store_inv_def)
  have "a' < Suc (length (objs h)) \<and> room_id ((objs h @ [r]) ! a') = k'"
    if "(k', a') \<in> set (AList.update k (length (objs h)) (dicts h ! rooms self))" for k' a'
    using set_update_cases [OF that] assms(2) ent [of k' a']
    by (auto simp add: nth_append)
  then show ?thesis using dl by (auto simp add: store_inv_def written_def)
qed

text \<open>
  C9. If every room in the store's dict is stored under its own \<open>room_id\<close>, then after
  any call of \<open>create_room\<close>, \<open>upsert_room\<close> or \<open>update_room\<close> this still holds, and the
  room returned (when one is returned) is the one stored under the \<open>room_id\<close> it carries.
\<close>

theorem stored_under_own_id:
  assumes "store_inv self h"
  shows "\<exists>res h'. call self op h = Inr (res, h') \<and> store_inv self h' \<and>
     (\<forall>a. res = Some a \<longrightarrow>
        a < length (objs h') \<and> get_room self (room_id (model_dump a h')) h' = Some a)"
proof -
  from assms have dl: "rooms self < length (dicts h)"
    and ent: "\<And>k' a'. (k', a') \<in> set (dicts h ! rooms self) \<Longrightarrow>
        a' < length (objs h) \<and> room_id (objs h ! a') = k'"
    by (auto simp add: store_inv_def)
  from call_shape [of self op h]
  consider "call self op h = Inr (None, h)"
    | k r where "call self op h = Inr (Some (length (objs h)), written self k r h)"
        "room_id r = k \<or> (\<exists>a0. get_room self k h = Some a0 \<and> room_id r = room_id (objs h ! a0))"
    by blast
  then show ?thesis
  proof cases
    case 1
    with assms show ?thesis by simp
  next
    case 2
    have rk: "room_id r = k"
    proof -
      have "room_id (objs h ! a0) = k" if "get_room self k h = Some a0" for a0
      proof -
        from that have "(k, a0) \<in> set (dicts h ! rooms self)"
          by (simp add: get_room_def dict_get_def map_of_SomeD)
        from ent [OF this] show ?thesis by simp
      qed
      with 2(2) show ?thesis by auto
    qed
    have "store_inv self (written self k r h)"
      using assms rk by (rule store_inv_written)
    moreover have "length (objs h) < length (objs (written self k r h))"
      by (simp add: length_written)
    moreover have "get_room self (room_id (model_dump (length (objs h)) (written self k r h)))
        (written self k r h) = Some (length (objs h))"
      using get_room_written_same [OF dl, of k r] rk by (simp add: model_dump_written_new)
    ultimately show ?thesis using 2(1) by simp
  qed
qed

lemma example_store_inv: "store_inv example_store example_heap"
  by (simp add: store_inv_def example_store_def example_heap_def)

theorem stored_under_own_id_witness:
  "\<exists>res h'. call example_store (UpsertRoom ''r2'' None None 11) example_heap = Inr (res, h') \<and>
     store_inv example_store h' \<and>
     (\<forall>a. res = Some a \<longrightarrow>
        a < length (objs h') \<and>
        get_room example_store (room_id (model_dump a h')) h' = Some a)"
  using stored_under_own_id [OF example_store_inv, of "UpsertRoom ''r2'' None None 11"]
  by simp

subsection \<open>Timestamps\<close>

text \<open>
  C2 as stated fails. The clock is \<open>time.time()\<close>: two calls can read the same value,
  and the system clock can be set back. Updating the code of \<open>r1\<close> (stored at 10) at
  clock reading 10 changes a field and leaves \<open>last_updated\<close> at 10; an upsert at clock
  reading 5 takes it down to 5.
\<close>

theorem timestamp_counterexample:
  "\<not> timestamp_advances example_store ''r1'' (UpdateRoom ''r1'' (Some ''b'') None 10)
       example_heap \<and>
   \<not> timestamp_advances example_store ''r1'' (UpsertRoom ''r1'' None None 5) example_heap"
  by (simp add: timestamp_advances_def room_at_def get_room_def dict_get_def model_dump_def
        example_store_def example_heap_def update_room_def upsert_room_def store_copy_def
        model_copy_def new_obj_def setattr_def dict_setitem_def)

lemma store_ok_written:
  assumes "store_ok self h"
  shows "store_ok self (written self k r h)"
proof -
  from assms have dl: "rooms self < length (dicts h)"
    and ent: "\<And>k' a'. (k', a') \<in> set (dicts h ! rooms self) \<Longrightarrow> a' < length (objs h)"
    by (auto simp add: store_ok_def)
  have "a' < Suc (length (objs h))"
    if "(k', a') \<in> set (AList.update k (length (objs h)) (dicts h ! rooms self))" for k' a'
    using set_update_cases [OF that] ent [of k' a'] by auto
  then show ?thesis using dl by (auto simp add: store_ok_def written_def)
qed

lemma get_room_allocated:
  assumes "store_ok self h" and "get_room self rid h = Some a0"
  shows "a0 < length (objs h)"
proof -
  from assms(2) have "(rid, a0) \<in> set (dicts h ! rooms self)"
    by (simp add: get_room_def dict_get_def map_of_SomeD)
  with assms(1) show ?thesis by (auto simp add: store_ok_def)
qed

lemma call_keeps_room:
  assumes "store_ok self h" and "get_room self rid h = Some a0"
  shows "\<exists>res h1 a1. call self op h = Inr (res, h1) \<and> store_ok self h1 \<and>
     get_room self rid h1 = Some a1 \<and>
     (last_updated (model_dump a1 h1) = last_updated (model_dump a0 h) \<or>
      last_updated (model_dump a1 h1) = clock_of op)"
proof -
  from assms(1) have dl: "rooms self < length (dicts h)" by (simp add: store_ok_def)
  from call_shape [of self op h]
  consider "call self op h = Inr (None, h)"
    | k r where "call self op h = Inr (Some (length (objs h)), written self k r h)"
        "last_updated r = clock_of op"
    by blast
  then show ?thesis
  proof cases
    case 1
    with assms show ?thesis by simp
  next
    case 2
    have ok: "store_ok self (written self k r h)"
      using assms(1) by (rule store_ok_written)
    show ?thesis
    proof (cases "k = rid")
      case True
      have "get_room self rid (written self k r h) = Some (length (objs h))"
        unfolding True using dl by (rule get_room_written_same)
      moreover have "last_updated (model_dump (length (objs h)) (written self k r h)) = clock_of op"
        using 2(2) by (simp add: model_dump_written_new)
      ultimately show ?thesis using 2(1) ok by blast
    next
      case False
      then have "get_room self rid (written self k r h) = Some a0"
        using assms(2) by (simp add: get_room_written_other)
      moreover have "model_dump a0 (written self k r h) = model_dump a0 h"
        using get_room_allocated [OF assms] by (rule model_dump_written_old)
      ultimately show ?thesis using 2(1) ok by auto
    qed
  qed
qed

lemma run_timestamps:
  assumes "store_ok self h" and "get_room self rid h = Some a0"
    and "sorted (last_updated (model_dump a0 h) # map clock_of ops)"
  shows "\<exists>h' a. run self ops h = Inr h' \<and> store_ok self h' \<and> get_room self rid h' = Some a \<and>
     last_updated (model_dump a0 h) \<le> last_updated (model_dump a h')"
  using assms
proof (induction ops arbitrary: h a0)
  case Nil
  then show ?case by simp
next
  case (Cons op ops)
  from call_keeps_room [OF Cons.prems(1,2), of op]
  obtain res h1 a1 where c: "call self op h = Inr (res, h1)" and ok: "store_ok self h1"
    and g: "get_room self rid h1 = Some a1"
    and t: "last_updated (model_dump a1 h1) = last_updated (model_dump a0 h) \<or>
      last_updated (model_dump a1 h1) = clock_of op"
    by blast
  from Cons.prems(3) have le: "last_updated (model_dump a0 h) \<le> last_updated (model_dump a1 h1)"
    using t by auto
  from Cons.prems(3) t have "sorted (last_updated (model_dump a1 h1) # map clock_of ops)"
    by auto
  from Cons.IH [OF ok g this]
  obtain h' a where "run self ops h1 = Inr h'" "store_ok self h'" "get_room self rid h' = Some a"
    "last_updated (model_dump a1 h1) \<le> last_updated (model_dump a h')"
    by blast
  with c le show ?case by auto
qed

lemma timestamps_sorted:
  assumes "store_ok self h" and "get_room self rid h = Some a0"
    and "sorted (last_updated (model_dump a0 h) # map clock_of ops)"
  shows "\<exists>ts. timestamps self rid ops h = Some ts \<and> length ts = length ops \<and>
     sorted (last_updated (model_dump a0 h) # ts)"
  using assms
proof (induction ops arbitrary: h a0)
  case Nil
  then show ?case by simp
next
  case (Cons op ops)
  from call_keeps_room [OF Cons.prems(1,2), of op]
  obtain res h1 a1 where c: "call self op h = Inr (res, h1)" and ok: "store_ok self h1"
    and g: "get_room self rid h1 = Some a1"
    and t: "last_updated (model_dump a1 h1) = last_updated (model_dump a0 h) \<or>
      last_updated (model_dump a1 h1) = clock_of op"
    by blast
  from Cons.prems(3) t
  have le: "last_updated (model_dump a0 h) \<le> last_updated (model_dump a1 h1)"
    by auto
  from Cons.prems(3) t have "sorted (last_updated (model_dump a1 h1) # map clock_of ops)"
    by auto
  from Cons.IH [OF ok g this]
  obtain ts where ts: "timestamps self rid ops h1 = Some ts" "length ts = length ops"
    "sorted (last_updated (model_dump a1 h1) # ts)"
    by blast
  from g have ra: "room_at self h1 rid = Some (model_dump a1 h1)"
    by (simp add: room_at_def)
  have "timestamps self rid (op # ops) h = Some (last_updated (model_dump a1 h1) # ts)"
    using c ra ts(1) by simp
  moreover have "sorted (last_updated (model_dump a0 h) # last_updated (model_dump a1 h1) # ts)"
    using le ts(3) by auto
  ultimately show ?case using ts(2) by simp
qed

text \<open>
  C2, as the code has it. A successful \<open>update_room\<close> or \<open>upsert_room\<close> of a room the
  store has sets \<open>last_updated\<close> to the clock reading of the call, whether or not a field
  changes: the timestamp is not lower than before exactly when the reading is not lower
  than the stored timestamp, and higher exactly when the reading is higher. Over any
  sequence of calls whose clock readings never go down and start no lower than the stored
  timestamp, every call succeeds, the room stays in the store, and the \<open>last_updated\<close>
  values read after each call, in order and starting from the stored one, never go down.
\<close>

theorem last_updated_is_clock_reading:
  assumes "store_ok self h" and "get_room self rid h = Some a0"
  shows "(\<exists>a h'. update_room self rid c l now h = Inr (Some a, h') \<and>
        upsert_room self rid c l now h = Inr (a, h') \<and>
        get_room self rid h' = Some a \<and>
        last_updated (model_dump a h') = now \<and>
        (last_updated (model_dump a0 h) \<le> last_updated (model_dump a h')
           \<longleftrightarrow> last_updated (model_dump a0 h) \<le> now) \<and>
        (last_updated (model_dump a0 h) < last_updated (model_dump a h')
           \<longleftrightarrow> last_updated (model_dump a0 h) < now)) \<and>
     (sorted (last_updated (model_dump a0 h) # map clock_of ops) \<longrightarrow>
        (\<exists>h' a. run self ops h = Inr h' \<and> get_room self rid h' = Some a \<and>
           last_updated (model_dump a0 h) \<le> last_updated (model_dump a h')) \<and>
        (\<exists>ts. timestamps self rid ops h = Some ts \<and> length ts = length ops \<and>
           sorted (last_updated (model_dump a0 h) # ts)))"
proof -
  from assms(1) have dl: "rooms self < length (dicts h)" by (simp add: store_ok_def)
  from existing_room_short [OF assms(2), of now c l]
  obtain r where r: "last_updated r = now"
    and ups: "upsert_room self rid c l now h = Inr (length (objs h), written self rid r h)"
    and upd: "update_room self rid c l now h = Inr (Some (length (objs h)), written self rid r h)"
    by blast
  have g: "get_room self rid (written self rid r h) = Some (length (objs h))"
    using dl by (rule get_room_written_same)
  have t: "last_updated (model_dump (length (objs h)) (written self rid r h)) = now"
    using r by (simp add: model_dump_written_new)
  from ups upd g t have step: "\<exists>a h'. update_room self rid c l now h = Inr (Some a, h') \<and>
        upsert_room self rid c l now h = Inr (a, h') \<and>
        get_room self rid h' = Some a \<and>
        last_updated (model_dump a h') = now \<and>
        (last_updated (model_dump a0 h) \<le> last_updated (model_dump a h')
           \<longleftrightarrow> last_updated (model_dump a0 h) \<le> now) \<and>
        (last_updated (model_dump a0 h) < last_updated (model_dump a h')
           \<longleftrightarrow> last_updated (model_dump a0 h) < now)"
    by simp
  have fin: "\<exists>h' a. run self ops h = Inr h' \<and> get_room self rid h' = Some a \<and>
           last_updated (model_dump a0 h) \<le> last_updated (model_dump a h')"
    if "sorted (last_updated (model_dump a0 h) # map clock_of ops)"
    using run_timestamps [OF assms that] by blast
  have tr: "\<exists>ts. timestamps self rid ops h = Some ts \<and> length ts = length ops \<and>
           sorted (last_updated (model_dump a0 h) # ts)"
    if "sorted (last_updated (model_dump a0 h) # map clock_of ops)"
    using that by (rule timestamps_sorted [OF assms])
  from step fin tr show ?thesis by blast
qed

theorem last_updated_is_clock_reading_witness:
  "(\<exists>a h'. update_room example_store ''r1'' (Some ''b'') None 12 example_heap = Inr (Some a, h') \<and>
        get_room example_store ''r1'' h' = Some a \<and>
        last_updated (model_dump a h') = 12) \<and>
   (\<exists>h' a. run example_store
        [UpdateRoom ''r1'' (Some ''b'') None 10, UpsertRoom ''r1'' None (Some ''js'') 10,
         CreateRoom 7 11 ''c'' None, UpsertRoom ''r1'' None None 13] example_heap = Inr h' \<and>
      get_room example_store ''r1'' h' = Some a \<and>
      10 \<le> last_updated (model_dump a h')) \<and>
   (\<exists>ts. timestamps example_store ''r1''
        [UpdateRoom ''r1'' (Some ''b'') None 10, UpsertRoom ''r1'' None (Some ''js'') 10,
         CreateRoom 7 11 ''c'' None, UpsertRoom ''r1'' None None 13] example_heap = Some ts \<and>
      length ts = 4 \<and> sorted (10 # ts))"
proof -
  note w = last_updated_is_clock_reading [OF example_store_ok example_get_r1,
      of "Some ''b''" None 12
        "[UpdateRoom ''r1'' (Some ''b'') None 10, UpsertRoom ''r1'' None (Some ''js'') 10,
          CreateRoom 7 11 ''c'' None, UpsertRoom ''r1'' None None 13]"]
  have s: "sorted (last_updated (model_dump 0 example_heap) #
      map clock_of [UpdateRoom ''r1'' (Some ''b'') None 10, UpsertRoom ''r1'' None (Some ''js'') 10,
          CreateRoom 7 11 ''c'' None, UpsertRoom ''r1'' None None 13])"
    by (simp add: example_dump_r1)
  from w s show ?thesis
    by (auto simp add: example_dump_r1 simp del: run.simps timestamps.simps)
qed

subsection \<open>Creating a room\<close>

lemma hex_pad_numeral:
  "hex_pad (numeral k) n = hex_pad (pred_numeral k) (n div 16) @ [hex_digit n]"
proof -
  have e: "numeral k = Suc (pred_numeral k)" by (rule numeral_eq_Suc)
  show ?thesis by (simp only: e hex_pad.simps)
qed

lemma gen_a: "generate_room_id 0x0000002a000040008000000000000001 = ''0000002a''"
  by (simp add: generate_room_id_def uuid_hex_def hex_digit_def hex_pad_numeral)

lemma gen_b: "generate_room_id 0x0000002a000040008000000000000002 = ''0000002a''"
  by (simp add: generate_room_id_def uuid_hex_def hex_digit_def hex_pad_numeral)

lemma generate_room_id_shape:
  "length (generate_room_id u) = 8 \<and> set (generate_room_id u) \<subseteq> set ''0123456789abcdef''"
proof -
  have "set (take 8 (hex_pad 32 (u mod 2 ^ 128))) \<subseteq> set (hex_pad 32 (u mod 2 ^ 128))"
    by (rule set_take_subset)
  with set_hex_pad [of 32 "u mod 2 ^ 128"] show ?thesis
    by (simp add: generate_room_id_def uuid_hex_def length_hex_pad)
qed

text \<open>
  C7 does not hold of \<open>create_room\<close>. The id is always 8 hexadecimal digits, but
  \<open>create_room\<close> assigns \<open>self._rooms[room_id] = room\<close> without looking the id up, so a
  second UUID with the same first 32 bits is given the id of a room the store has and
  the new room replaces it: after the two calls below the store holds one room under
  \<open>0000002a\<close>, the second, although \<open>room_id\<close> is documented as the unique room
  identifier and both calls returned a room with that id.
\<close>

theorem create_room_collision_overwrites:
  "generate_room_id 0x0000002a000040008000000000000001 = ''0000002a'' \<and>
   generate_room_id 0x0000002a000040008000000000000002 = ''0000002a'' \<and>
   create_room example_store 0x0000002a000040008000000000000001 10 ''first'' None
      \<lparr>objs = [], dicts = [[]]\<rparr> = Inr (0, created_heap) \<and>
   get_room example_store ''0000002a'' created_heap = Some 0 \<and>
   create_room example_store 0x0000002a000040008000000000000002 11 ''second'' None created_heap =
     Inr (1, \<lparr>objs = [\<lparr>room_id = ''0000002a'', code = ''first'', language = ''python'',
                        last_updated = 10\<rparr>,
                      \<lparr>room_id = ''0000002a'', code = ''second'', language = ''python'',
                        last_updated = 11\<rparr>],
              dicts = [[(''0000002a'', 1)]]\<rparr>)"
  by (simp add: create_room_def gen_a gen_b normalize_language_None
      RoomState_init_def Language_def new_obj_def dict_setitem_def example_store_def
      created_heap_def get_room_def dict_get_def Let_def)

subsection \<open>Listing the rooms\<close>









section \<open>Properties of the room channel\<close>

text \<open>
  C1 as stated fails: the handler has one \<open>send_json\<close>, on its own connection, and keeps
  no record of the other connections. Connections 1 and 2 are both on room \<open>r1\<close>; after
  an update received on connection 1 the snapshot has been sent on connection 1 and
  nothing on connection 2.
\<close>

theorem update_echo_counterexample:
  "subscribed example_server 1 ''r1'' \<and> subscribed example_server 2 ''r1'' \<and>
   \<not> update_is_broadcast 1 [(''action'', ''update''), (''code'', ''hi'')] 11 example_server \<and>
   sent_after (ws_receive 1 [(''action'', ''update''), (''code'', ''hi'')] 11 example_server) 1 =
     [Snapshot \<lparr>room_id = ''r1'', code = ''hi'', language = ''python'', last_updated = 11\<rparr>] \<and>
   sent_after (ws_receive 1 [(''action'', ''update''), (''code'', ''hi'')] 11 example_server) 2 =
     []"
  by (simp add: sent_after_def subscribed_def update_is_broadcast_def ws_receive_def room_websocket_turn_def
        upsert_room_def store_copy_def model_copy_def new_obj_def setattr_def dict_setitem_def
        dict_get_def model_dump_def room_at_def get_room_def
        example_server_def example_store_def example_heap_def)

lemma upsert_room_short:
  "\<exists>r. upsert_room self rid c l now h = Inr (length (objs h), written self rid r h)"
proof (cases "get_room self rid h")
  case None
  from new_room_short [OF this, of now c l] show ?thesis by blast
next
  case (Some a0)
  from existing_room_short [OF this, of now c l] show ?thesis by blast
qed

text \<open>
  C1, as the code has it. For every \<open>update\<close> message received on a connection of a
  room, the handler upserts the room with the code and language of the message and sends
  the snapshot of the stored room on the connection the message came from; on every other
  connection nothing is sent.
\<close>

theorem update_is_echoed_to_sender:
  assumes "store_ok (the_store srv) (mem srv)" and "subscribed srv c rid"
    and "map_of data ''action'' = Some ''update''"
  shows "\<exists>srv1 a. ws_receive c data now srv = Inr srv1 \<and>
     upsert_room (the_store srv) rid (map_of data ''code'') (map_of data ''language'') now
       (mem srv) = Inr (a, mem srv1) \<and>
     get_room (the_store srv1) rid (mem srv1) = Some a \<and>
     sent srv1 c = sent srv c @ [Snapshot (model_dump a (mem srv1))] \<and>
     (\<forall>c1. c1 \<noteq> c \<longrightarrow> sent srv1 c1 = sent srv c1) \<and>
     conns srv1 = conns srv \<and> the_store srv1 = the_store srv"
proof -
  from assms(1) have dl: "rooms (the_store srv) < length (dicts (mem srv))"
    by (simp add: store_ok_def)
  from assms(2) have cn: "map_of (conns srv) c = Some rid" by (simp add: subscribed_def)
  from upsert_room_short [of "the_store srv" rid "map_of data ''code''"
      "map_of data ''language''" now "mem srv"]
  obtain r where ups: "upsert_room (the_store srv) rid (map_of data ''code'')
      (map_of data ''language'') now (mem srv) =
        Inr (length (objs (mem srv)), written (the_store srv) rid r (mem srv))"
    by blast
  let ?a = "length (objs (mem srv))" and ?h1 = "written (the_store srv) rid r (mem srv)"
  let ?srv1 = "srv\<lparr>mem := ?h1, sent := (sent srv)(c := sent srv c @ [Snapshot (model_dump ?a ?h1)])\<rparr>"
  have rc: "ws_receive c data now srv = Inr ?srv1"
    using cn assms(3) ups by (simp add: ws_receive_def room_websocket_turn_def)
  have g: "get_room (the_store ?srv1) rid (mem ?srv1) = Some ?a"
    using get_room_written_same [OF dl, of rid r] by simp
  from rc ups g show ?thesis
    by (intro exI [of _ ?srv1] exI [of _ ?a]) simp
qed

lemma example_server_ok: "store_ok (the_store example_server) (mem example_server)"
  by (simp add: example_server_def example_store_ok)

theorem update_is_echoed_to_sender_witness:
  "\<exists>srv1 a. ws_receive 1 [(''action'', ''update''), (''code'', ''hi'')] 11 example_server = Inr srv1 \<and>
     get_room example_store ''r1'' (mem srv1) = Some a \<and>
     sent srv1 1 = [Snapshot (model_dump a (mem srv1))] \<and>
     sent srv1 2 = []"
proof -
  have s: "subscribed example_server 1 ''r1''"
    by (simp add: subscribed_def example_server_def)
  have m: "map_of [(''action'', ''update''), (''code'', ''hi'')] ''action'' = Some ''update''"
    by simp
  from update_is_echoed_to_sender [OF example_server_ok s m, of 11]
  obtain srv1 a where
    "ws_receive 1 [(''action'', ''update''), (''code'', ''hi'')] 11 example_server = Inr srv1"
    "get_room (the_store srv1) ''r1'' (mem srv1) = Some a"
    "sent srv1 1 = sent example_server 1 @ [Snapshot (model_dump a (mem srv1))]"
    "\<forall>c1. c1 \<noteq> 1 \<longrightarrow> sent srv1 c1 = sent example_server c1"
    "the_store srv1 = the_store example_server"
    by blast
  then show ?thesis by (auto simp add: example_server_def)
qed

end
